theory Spec2Isabelle
  imports Complex_Main "HOL-Library.Sublist"
begin

section \<open>Python strings\<close>

text \<open>
  A Python \<open>str\<close> is modelled as a \<open>string\<close> holding its UTF-8 encoding, one \<open>char\<close> per
  byte. Every pattern the program searches for (\<open>---\<close>, \<open>/ko/\<close>, \<open>title:\<close>, a quoted value,
  a bracket literal, a code fence) starts with an ASCII byte, so searching the bytes finds
  exactly the occurrences that Python finds on code points.
\<close>

text \<open>\<open>s.partition(sep)\<close>: the text before and after the first occurrence of \<open>sep\<close>.\<close>

fun py_partition :: "string \<Rightarrow> string \<Rightarrow> (string \<times> string) option" where
  "py_partition [] sep = (if sep = [] then Some ([], []) else None)"
| "py_partition (c # cs) sep =
     (if prefix sep (c # cs) then Some ([], drop (length sep) (c # cs))
      else map_option (\<lambda>(a, b). (c # a, b)) (py_partition cs sep))"

text \<open>\<open>sub in s\<close>.\<close>

definition py_in :: "string \<Rightarrow> string \<Rightarrow> bool" where
  "py_in sub s = (py_partition s sub \<noteq> None)"

text \<open>\<open>s.split(sep, maxsplit)\<close> for a non-empty separator.\<close>

fun py_split :: "string \<Rightarrow> string \<Rightarrow> nat \<Rightarrow> string list" where
  "py_split s sep 0 = [s]"
| "py_split s sep (Suc n) =
     (case py_partition s sep of
        None \<Rightarrow> [s]
      | Some (a, b) \<Rightarrow> a # py_split b sep n)"

text \<open>\<open>s.count(sub)\<close>: the occurrences found scanning left to right without overlap.\<close>

function py_count :: "string \<Rightarrow> string \<Rightarrow> nat" where
  "py_count [] sub = (if sub = [] then 1 else 0)"
| "py_count (c # cs) sub =
     (if sub = [] then Suc (py_count cs sub)
      else if prefix sub (c # cs) then Suc (py_count (drop (length sub) (c # cs)) sub)
      else py_count cs sub)"
  by pat_completeness auto
termination
  by (relation "measure (\<lambda>(s, sub). length s)") (auto simp: neq_Nil_conv)

text \<open>\<open>s.replace(old, new)\<close>: every occurrence, left to right without overlap.\<close>

function py_replace :: "string \<Rightarrow> string \<Rightarrow> string \<Rightarrow> string" where
  "py_replace [] old new = (if old = [] then new else [])"
| "py_replace (c # cs) old new =
     (if old = [] then new @ c # py_replace cs old new
      else if prefix old (c # cs) then new @ py_replace (drop (length old) (c # cs)) old new
      else c # py_replace cs old new)"
  by pat_completeness auto
termination
  by (relation "measure (\<lambda>(s, old, new). length s)") (auto simp: neq_Nil_conv)

text \<open>
  Whitespace as \<open>str.strip\<close> and the pattern \<open>\s\<close> see it: the code points U+0009 to U+000D,
  U+001C to U+0020, U+0085, U+00A0, U+1680, U+2000 to U+200A, U+2028, U+2029, U+202F, U+205F
  and U+3000, each in its UTF-8 encoding.
\<close>

definition whitespace :: "string list" where
  "whitespace =
     [[CHR 0x09], [CHR 0x0A], [CHR 0x0B], [CHR 0x0C], [CHR 0x0D],
      [CHR 0x1C], [CHR 0x1D], [CHR 0x1E], [CHR 0x1F], [CHR 0x20],
      [CHR 0xC2, CHR 0x85], [CHR 0xC2, CHR 0xA0],
      [CHR 0xE1, CHR 0x9A, CHR 0x80],
      [CHR 0xE2, CHR 0x80, CHR 0x80], [CHR 0xE2, CHR 0x80, CHR 0x81],
      [CHR 0xE2, CHR 0x80, CHR 0x82], [CHR 0xE2, CHR 0x80, CHR 0x83],
      [CHR 0xE2, CHR 0x80, CHR 0x84], [CHR 0xE2, CHR 0x80, CHR 0x85],
      [CHR 0xE2, CHR 0x80, CHR 0x86], [CHR 0xE2, CHR 0x80, CHR 0x87],
      [CHR 0xE2, CHR 0x80, CHR 0x88], [CHR 0xE2, CHR 0x80, CHR 0x89],
      [CHR 0xE2, CHR 0x80, CHR 0x8A],
      [CHR 0xE2, CHR 0x80, CHR 0xA8], [CHR 0xE2, CHR 0x80, CHR 0xA9],
      [CHR 0xE2, CHR 0x80, CHR 0xAF],
      [CHR 0xE2, CHR 0x81, CHR 0x9F],
      [CHR 0xE3, CHR 0x80, CHR 0x80]]"

text \<open>The number of bytes of the first sequence of \<open>ws\<close> that \<open>s\<close> starts with, 0 if none.\<close>

fun leading :: "string list \<Rightarrow> string \<Rightarrow> nat" where
  "leading [] s = 0"
| "leading (w # ws) s = (if w \<noteq> [] \<and> prefix w s then length w else leading ws s)"

function strip_leading :: "string list \<Rightarrow> string \<Rightarrow> string" where
  "strip_leading ws [] = []"
| "strip_leading ws (c # cs) =
     (if leading ws (c # cs) = 0 then c # cs
      else strip_leading ws (drop (leading ws (c # cs)) (c # cs)))"
  by pat_completeness auto
termination
  by (relation "measure (\<lambda>(ws, s). length s)") auto

definition py_lstrip :: "string \<Rightarrow> string" where
  "py_lstrip s = strip_leading whitespace s"

definition py_rstrip :: "string \<Rightarrow> string" where
  "py_rstrip s = rev (strip_leading (map rev whitespace) (rev s))"

definition py_strip :: "string \<Rightarrow> string" where
  "py_strip s = py_lstrip (py_rstrip s)"

text \<open>\<open>len(s)\<close> counts code points: the bytes that are not UTF-8 continuation bytes.\<close>

definition py_len :: "string \<Rightarrow> nat" where
  "py_len s =
     length (filter (\<lambda>c. \<not> (0x80 \<le> (of_char c :: nat) \<and> (of_char c :: nat) < 0xC0)) s)"

text \<open>\<open>s.lower()\<close> on ASCII text, which the language codes are.\<close>

definition lower_char :: "char \<Rightarrow> char" where
  "lower_char c =
     (case map_of (zip ''ABCDEFGHIJKLMNOPQRSTUVWXYZ'' ''abcdefghijklmnopqrstuvwxyz'') c of
        Some l \<Rightarrow> l
      | None \<Rightarrow> c)"

definition py_lower :: "string \<Rightarrow> string" where
  "py_lower s = map lower_char s"


section \<open>The frontmatter patterns\<close>

text \<open>
  \<open>re.search\<close> results are triples: the text before group 1, group 1, and the text after
  group 1 (\<open>s[:m.start(1)]\<close>, \<open>m.group(1)\<close>, \<open>s[m.end(1):]\<close>); the program reads group 1 only.
\<close>

definition is_quote :: "char \<Rightarrow> bool" where
  "is_quote c = (c = CHR 0x27 \<or> c = CHR 0x22)"

text \<open>
  \<open>(.*?)[cs]\<close> where \<open>cs\<close> is a set of closing characters: the lazy group takes the characters
  up to the first closing character; \<open>.\<close> does not match a newline. The result is the group and
  the text from the closing character on.
\<close>

fun lazy_dots :: "(char \<Rightarrow> bool) \<Rightarrow> string \<Rightarrow> (string \<times> string) option" where
  "lazy_dots closing [] = None"
| "lazy_dots closing (c # cs) =
     (if closing c then Some ([], c # cs)
      else if c = CHR ''\<newline>'' then None
      else map_option (\<lambda>(g, r). (c # g, r)) (lazy_dots closing cs))"

text \<open>
  The pattern \<open>key\s*['"](.*?)['"]\<close> tried at the start of \<open>s\<close>. A quote is not whitespace, so
  the greedy \<open>\s*\<close> never gives a character back.
\<close>

definition match_quoted :: "string \<Rightarrow> string \<Rightarrow> (string \<times> string \<times> string) option" where
  "match_quoted key s =
     (if prefix key s then
        (let rest = py_lstrip (drop (length key) s) in
         case rest of
           [] \<Rightarrow> None
         | q # after \<Rightarrow>
             if is_quote q then
               map_option (\<lambda>(g, r). (take (length s - length after) s, g, r))
                 (lazy_dots is_quote after)
             else None)
      else None)"

text \<open>The pattern \<open>key\s*(\[.*?\])\<close> tried at the start of \<open>s\<close>.\<close>

definition match_bracketed :: "string \<Rightarrow> string \<Rightarrow> (string \<times> string \<times> string) option" where
  "match_bracketed key s =
     (if prefix key s then
        (let rest = py_lstrip (drop (length key) s) in
         case rest of
           [] \<Rightarrow> None
         | b # after \<Rightarrow>
             if b = CHR ''['' then
               map_option
                 (\<lambda>(g, r). (take (length s - length rest) s, b # g @ take 1 r, drop 1 r))
                 (lazy_dots (\<lambda>c. c = CHR '']'') after)
             else None)
      else None)"

text \<open>\<open>re.search\<close>: the match at the leftmost position that has one.\<close>

fun re_search ::
  "(string \<Rightarrow> (string \<times> string \<times> string) option) \<Rightarrow> string \<Rightarrow>
   (string \<times> string \<times> string) option" where
  "re_search m [] = m []"
| "re_search m (c # cs) =
     (case m (c # cs) of
        Some r \<Rightarrow> Some r
      | None \<Rightarrow> map_option (\<lambda>(a, g, b). (c # a, g, b)) (re_search m cs))"

text \<open>The f-string \<open>'{t}'\<close>.\<close>

definition quoted :: "string \<Rightarrow> string" where
  "quoted t = CHR 0x27 # t @ [CHR 0x27]"

section \<open>Collaborators\<close>

text \<open>
  The model backend, the database driver, the clock and the file system are outside the
  program. They are functions over a state \<open>'w\<close> of the outside world, so that an answer may
  depend on everything that happened before; a call that raises returns the exception as a
  value. Interrupts from the keyboard are not modelled.
\<close>

datatype error = Exception string | ZeroDivisionError

text \<open>What the program reads of a chat response; an absent counter is \<open>None\<close>.\<close>

record response =
  content :: string
  eval_duration :: "int option"
  eval_count :: "int option"

text \<open>A row of \<open>translation_logs\<close>, in the order of the \<open>INSERT\<close>.\<close>

record log_row =
  row_model_name :: string
  row_source_lang :: string
  row_target_lang :: string
  row_input_length :: nat
  row_output_length :: nat
  row_latency_ms :: real
  row_tokens_per_sec :: real
  row_similarity_score :: real
  row_input_text :: string
  row_output_text :: string

record 'w env =
  ollama_chat :: "string \<Rightarrow> string \<Rightarrow> string \<Rightarrow> 'w \<Rightarrow> (error + response) \<times> 'w"
  ollama_generate :: "string \<Rightarrow> 'w \<Rightarrow> error option \<times> 'w"
  time_time :: "'w \<Rightarrow> real"
  psycopg2_connect :: "'w \<Rightarrow> error option \<times> 'w"
  execute_commit :: "log_row \<Rightarrow> 'w \<Rightarrow> error option \<times> 'w"
  rollback :: "'w \<Rightarrow> error option \<times> 'w"
  write_text :: "string \<Rightarrow> string \<Rightarrow> 'w \<Rightarrow> error option \<times> 'w"

text \<open>Each \<open>print\<close> of the program, with the values it interpolates.\<close>

datatype event =
    Monitor_Error_Connection error
  | Monitor_Error_Insert error
  | DB_Log_Saved string real real
  | Inference string string string
  | Warning_Tags_Format
  | Error_File_Not_Found string
  | Processing_Post string
  | Warning_No_Frontmatter
  | Starting_Translation string
  | Saved string
  | Error_Processing string error

text \<open>
  The state of a run: the outside world, whether \<open>monitor.conn\<close> holds a connection, the
  console, and the files (a path that exists maps to its text, or to the exception that
  reading it raises).
\<close>

record 'w state =
  world :: 'w
  conn :: bool
  out :: "event list"
  files :: "string \<rightharpoonup> (error + string)"

section \<open>monitor\_agent.py\<close>

text \<open>\<open>MLOpsMonitor._connect\<close>.\<close>

definition connect :: "'w env \<Rightarrow> 'w state \<Rightarrow> 'w state" where
  "connect E s =
     (case psycopg2_connect E (world s) of
        (None, w) \<Rightarrow> s\<lparr>world := w, conn := True\<rparr>
      | (Some e, w) \<Rightarrow> s\<lparr>world := w, out := out s @ [Monitor_Error_Connection e]\<rparr>)"

text \<open>
  \<open>MLOpsMonitor.log_inference\<close>. The row is built from the arguments; the \<open>rollback\<close> of the
  handler is outside the \<open>try\<close>.
\<close>

definition log_inference ::
  "'w env \<Rightarrow> string \<Rightarrow> string \<Rightarrow> string \<Rightarrow> string \<Rightarrow> string \<Rightarrow> real \<Rightarrow> real \<Rightarrow> real \<Rightarrow>
   'w state \<Rightarrow> (error + unit) \<times> 'w state" where
  "log_inference E model src_lang tgt_lang input output latency tps score s =
     (let s1 = (if \<not> conn s then connect E s else s) in
      if \<not> conn s1 then (Inr (), s1)
      else
        (let row = \<lparr>row_model_name = model, row_source_lang = src_lang, row_target_lang = tgt_lang,
                    row_input_length = py_len input, row_output_length = py_len output,
                    row_latency_ms = latency, row_tokens_per_sec = tps, row_similarity_score = score,
                    row_input_text = input, row_output_text = output\<rparr> in
         case execute_commit E row (world s1) of
           (None, w) \<Rightarrow>
             (Inr (), s1\<lparr>world := w, out := out s1 @ [DB_Log_Saved model latency tps]\<rparr>)
         | (Some e, w) \<Rightarrow>
             (case rollback E w of
                (None, w') \<Rightarrow>
                  (Inr (), s1\<lparr>world := w', out := out s1 @ [Monitor_Error_Insert e]\<rparr>)
              | (Some e', w') \<Rightarrow>
                  (Inl e', s1\<lparr>world := w', out := out s1 @ [Monitor_Error_Insert e]\<rparr>))))"

section \<open>translation\_agent.py\<close>

definition EN_PROMPT :: string where
  "EN_PROMPT =
     ''\<newline>'' @ ''    You are a skilled Tech Blog Translator. \<newline>'' @
     ''    Translate the Korean text into natural, professional English for a developer audience.\<newline>'' @
     ''\<newline>'' @ ''    [Critical Rules]\<newline>'' @
     ''    1. **Tone**: Casual but professional (DevLog style). Use \"I\" for the first person.\<newline>'' @
     ''    2. **Technical Terms**: Keep terms like 'Local LLM', 'vscode', 'commit & push', 'terminal' in English.\<newline>'' @
     ''    3. **Tags Handling**: If the input is a list of tags (e.g., ['A', 'B']), translate the words inside but KEEP the ['...'] format strictly.\<newline>'' @
     ''    4. **Formatting**: Preserve all Markdown formatting.\<newline>'' @ ''    ''"

text \<open>The Japanese prompt, in UTF-8.\<close>

definition JP_PROMPT :: string where
  "JP_PROMPT =
     ''\<newline>'' @ ''    '' @
     [CHR 0xE3, CHR 0x81, CHR 0x82, CHR 0xE3, CHR 0x81, CHR 0xAA, CHR 0xE3, CHR 0x81, CHR 0x9F] @
     [CHR 0xE3, CHR 0x81, CHR 0xAF, CHR 0xE3, CHR 0x83, CHR 0x97, CHR 0xE3, CHR 0x83, CHR 0xAD] @
     [CHR 0xE3, CHR 0x81, CHR 0xAE, CHR 0xE6, CHR 0x8A, CHR 0x80, CHR 0xE8, CHR 0xA1, CHR 0x93] @
     [CHR 0xE3, CHR 0x83, CHR 0x96, CHR 0xE3, CHR 0x83, CHR 0xAD, CHR 0xE3, CHR 0x82, CHR 0xAC] @
     [CHR 0xE3, CHR 0x83, CHR 0xBC, CHR 0xE3, CHR 0x81, CHR 0xA7, CHR 0xE3, CHR 0x81, CHR 0x99] @
     [CHR 0xE3, CHR 0x80, CHR 0x82, CHR 0xE9, CHR 0x9F, CHR 0x93, CHR 0xE5, CHR 0x9B, CHR 0xBD] @
     [CHR 0xE8, CHR 0xAA, CHR 0x9E, CHR 0xE3, CHR 0x81, CHR 0xAE, CHR 0xE6, CHR 0x8A, CHR 0x80] @
     [CHR 0xE8, CHR 0xA1, CHR 0x93, CHR 0xE3, CHR 0x83, CHR 0x96, CHR 0xE3, CHR 0x83, CHR 0xAD] @
     [CHR 0xE3, CHR 0x82, CHR 0xB0, CHR 0xE3, CHR 0x82, CHR 0x92, CHR 0xE6, CHR 0x97, CHR 0xA5] @
     [CHR 0xE6, CHR 0x9C, CHR 0xAC, CHR 0xE3, CHR 0x81, CHR 0xAE, CHR 0xE3, CHR 0x82, CHR 0xA8] @
     [CHR 0xE3, CHR 0x83, CHR 0xB3, CHR 0xE3, CHR 0x82, CHR 0xB8, CHR 0xE3, CHR 0x83, CHR 0x8B] @
     [CHR 0xE3, CHR 0x82, CHR 0xA2, CHR 0xE5, CHR 0x90, CHR 0x91, CHR 0xE3, CHR 0x81, CHR 0x91] @
     [CHR 0xE3, CHR 0x81, CHR 0xAB, CHR 0xE8, CHR 0x87, CHR 0xAA, CHR 0xE7, CHR 0x84, CHR 0xB6] @
     [CHR 0xE3, CHR 0x81, CHR 0xAA, CHR 0xE6, CHR 0x97, CHR 0xA5, CHR 0xE6, CHR 0x9C, CHR 0xAC] @
     [CHR 0xE8, CHR 0xAA, CHR 0x9E, CHR 0xE3, CHR 0x81, CHR 0xB8, CHR 0xE7, CHR 0xBF, CHR 0xBB] @
     [CHR 0xE8, CHR 0xA8, CHR 0xB3, CHR 0xE3, CHR 0x81, CHR 0x97, CHR 0xE3, CHR 0x81, CHR 0xA6] @
     [CHR 0xE3, CHR 0x81, CHR 0x8F, CHR 0xE3, CHR 0x81, CHR 0xA0, CHR 0xE3, CHR 0x81, CHR 0x95] @
     [CHR 0xE3, CHR 0x81, CHR 0x84, CHR 0xE3, CHR 0x80, CHR 0x82] @ ''\<newline>'' @
     ''\<newline>'' @ ''    [Critical Rules]\<newline>'' @
     ''    1. **Tone**: Polite but technical ('' @
     [CHR 0xE3, CHR 0x80, CHR 0x8C, CHR 0xE3, CHR 0x81, CHR 0xA7, CHR 0xE3, CHR 0x81, CHR 0x99] @
     [CHR 0xE3, CHR 0x83, CHR 0xBB, CHR 0xE3, CHR 0x81, CHR 0xBE, CHR 0xE3, CHR 0x81, CHR 0x99] @
     [CHR 0xE3, CHR 0x80, CHR 0x8D, CHR 0xE8, CHR 0xAA, CHR 0xBF] @ '').\<newline>'' @
     ''    2. **Technical Terms**: Use standard Katakana or English (e.g., Local LLM, vscode).\<newline>'' @
     ''    3. **Tags Handling**: If the input is a list of tags (e.g., ['A', 'B']), translate the words inside but KEEP the ['...'] format strictly.\<newline>'' @
     ''    4. **Formatting**: Markdown'' @
     [CHR 0xE3, CHR 0x81, CHR 0xAE, CHR 0xE5, CHR 0xBD, CHR 0xA2, CHR 0xE5, CHR 0xBC, CHR 0x8F] @
     [CHR 0xE3, CHR 0x82, CHR 0x92, CHR 0xE5, CHR 0xB4, CHR 0xA9, CHR 0xE3, CHR 0x81, CHR 0x95] @
     [CHR 0xE3, CHR 0x81, CHR 0xAA, CHR 0xE3, CHR 0x81, CHR 0x84, CHR 0xE3, CHR 0x81, CHR 0xA7] @
     [CHR 0xE3, CHR 0x81, CHR 0x8F, CHR 0xE3, CHR 0x81, CHR 0xA0, CHR 0xE3, CHR 0x81, CHR 0x95] @
     [CHR 0xE3, CHR 0x81, CHR 0x84, CHR 0xE3, CHR 0x80, CHR 0x82] @ ''\<newline>'' @ ''    ''"

definition SYSTEM_PROMPTS :: "(string \<times> string) list" where
  "SYSTEM_PROMPTS = [(''EN'', EN_PROMPT), (''JP'', JP_PROMPT)]"

definition MODELS :: "(string \<times> string) list" where
  "MODELS = [(''EN'', ''gemma2:9b''), (''JP'', ''qwen2.5:7b'')]"

definition TAGS_INSTRUCTION :: string where
  "TAGS_INSTRUCTION =
     ''\<newline>'' @
     ''IMPORTANT: The input is a list of tags. Translate the terms but output ONLY the Python-style list format: ['Tag1', 'Tag2']. Do not explain.''"

definition METADATA_INSTRUCTION :: string where
  "METADATA_INSTRUCTION =
     ''\<newline>'' @ ''Translate this short metadata text accurately. Keep it concise.''"

text \<open>\<open>d.get(k, default)\<close>.\<close>

definition dict_get :: "('k \<times> 'v) list \<Rightarrow> 'k \<Rightarrow> 'v \<Rightarrow> 'v" where
  "dict_get d k dflt = (case map_of d k of None \<Rightarrow> dflt | Some v \<Rightarrow> v)"

text \<open>The model and the system prompt of a call (the first lines of \<open>_call_llm\<close>).\<close>

definition select_model :: "string \<Rightarrow> string" where
  "select_model target_lang = dict_get MODELS target_lang ''gemma2:9b''"

definition select_prompt :: "string \<Rightarrow> bool \<Rightarrow> bool \<Rightarrow> string" where
  "select_prompt target_lang is_metadata is_tags =
     dict_get SYSTEM_PROMPTS target_lang [] @
       (if is_tags then TAGS_INSTRUCTION
        else if is_metadata then METADATA_INSTRUCTION
        else [])"

definition role_label :: "bool \<Rightarrow> bool \<Rightarrow> string" where
  "role_label is_metadata is_tags =
     (if is_tags then ''Tags'' else if is_metadata then ''Metadata'' else ''Body'')"

text \<open>\<open>a / b\<close> on numbers.\<close>

definition py_truediv :: "real \<Rightarrow> real \<Rightarrow> error + real" where
  "py_truediv a b = (if b = 0 then Inl ZeroDivisionError else Inr (a / b))"

text \<open>
  The throughput of a response:
  \<open>eval_count / (eval_duration / 1e9) if eval_duration > 0 else 0\<close>, on the reals.
\<close>

definition tps_of :: "response \<Rightarrow> error + real" where
  "tps_of r =
     (let duration = (case eval_duration r of None \<Rightarrow> 0 | Some d \<Rightarrow> d);
          count = (case eval_count r of None \<Rightarrow> 0 | Some n \<Rightarrow> n) in
      if duration > 0 then
        (case py_truediv (real_of_int duration) 1000000000 of
           Inl e \<Rightarrow> Inl e
         | Inr seconds \<Rightarrow> py_truediv (real_of_int count) seconds)
      else Inr 0)"

text \<open>The text of a response: stripped, and for tags freed of code fences.\<close>

definition result_text_of :: "bool \<Rightarrow> response \<Rightarrow> string" where
  "result_text_of is_tags r =
     (let result_text = py_strip (content r) in
      if is_tags then py_strip (py_replace (py_replace result_text ''```json'' []) ''```'' [])
      else result_text)"

text \<open>\<open>TranslationAgent._call_llm\<close>.\<close>

definition call_llm ::
  "'w env \<Rightarrow> string \<Rightarrow> string \<Rightarrow> bool \<Rightarrow> bool \<Rightarrow> 'w state \<Rightarrow> (error + string) \<times> 'w state" where
  "call_llm E text target_lang is_metadata is_tags s =
     (let model = select_model target_lang;
          system_prompt = select_prompt target_lang is_metadata is_tags;
          s0 = s\<lparr>out := out s @ [Inference model target_lang (role_label is_metadata is_tags)]\<rparr>;
          start_time = time_time E (world s0) in
      case ollama_chat E model system_prompt text (world s0) of
        (Inl e, w) \<Rightarrow> (Inl e, s0\<lparr>world := w\<rparr>)
      | (Inr r, w) \<Rightarrow>
          (let end_time = time_time E w;
               result_text = result_text_of is_tags r;
               latency = (end_time - start_time) * 1000;
               s1 = s0\<lparr>world := w\<rparr> in
           case tps_of r of
             Inl e \<Rightarrow> (Inl e, s1)
           | Inr tps \<Rightarrow>
               (case log_inference E model ''KO'' target_lang text result_text latency tps
                       (95 / 100) s1 of
                  (Inl e, s2) \<Rightarrow> (Inl e, s2)
                | (Inr u, s2) \<Rightarrow>
                    (case ollama_generate E model (world s2) of
                       (Some e, w') \<Rightarrow> (Inl e, s2\<lparr>world := w'\<rparr>)
                     | (None, w') \<Rightarrow> (Inr result_text, s2\<lparr>world := w'\<rparr>)))))"

text \<open>The title and the description steps of \<open>_translate_frontmatter\<close>, which differ in the key.\<close>

definition translate_quoted ::
  "'w env \<Rightarrow> string \<Rightarrow> string \<Rightarrow> string \<Rightarrow> string \<Rightarrow> 'w state \<Rightarrow>
   (error + string) \<times> 'w state" where
  "translate_quoted E key raw_frontmatter target_lang new_frontmatter s =
     (case re_search (match_quoted key) raw_frontmatter of
        None \<Rightarrow> (Inr new_frontmatter, s)
      | Some (before, original, after) \<Rightarrow>
          (case call_llm E original target_lang True False s of
             (Inl e, s') \<Rightarrow> (Inl e, s')
           | (Inr translated, s') \<Rightarrow>
               (Inr (py_replace new_frontmatter (quoted original) (quoted translated)), s')))"

text \<open>The tags step.\<close>

definition translate_tags ::
  "'w env \<Rightarrow> string \<Rightarrow> string \<Rightarrow> string \<Rightarrow> 'w state \<Rightarrow> (error + string) \<times> 'w state" where
  "translate_tags E raw_frontmatter target_lang new_frontmatter s =
     (case re_search (match_bracketed ''tags:'') raw_frontmatter of
        None \<Rightarrow> (Inr new_frontmatter, s)
      | Some (before, original_tags_str, after) \<Rightarrow>
          (case call_llm E original_tags_str target_lang False True s of
             (Inl e, s') \<Rightarrow> (Inl e, s')
           | (Inr translated_tags_str, s') \<Rightarrow>
               if py_in ''['' translated_tags_str \<and> py_in '']'' translated_tags_str
               then (Inr (py_replace new_frontmatter original_tags_str translated_tags_str), s')
               else (Inr new_frontmatter, s'\<lparr>out := out s' @ [Warning_Tags_Format]\<rparr>)))"

text \<open>\<open>TranslationAgent._translate_frontmatter\<close>: the three steps in a row, with no handler.\<close>

definition translate_frontmatter ::
  "'w env \<Rightarrow> string \<Rightarrow> string \<Rightarrow> 'w state \<Rightarrow> (error + string) \<times> 'w state" where
  "translate_frontmatter E raw_frontmatter target_lang s =
     (case translate_quoted E ''title:'' raw_frontmatter target_lang raw_frontmatter s of
        (Inl e, s1) \<Rightarrow> (Inl e, s1)
      | (Inr with_title, s1) \<Rightarrow>
          (case translate_quoted E ''description:'' raw_frontmatter target_lang with_title s1 of
             (Inl e, s2) \<Rightarrow> (Inl e, s2)
           | (Inr with_description, s2) \<Rightarrow>
               translate_tags E raw_frontmatter target_lang with_description s2))"

subsection \<open>Paths\<close>

text \<open>
  A \<open>pathlib\<close> path on POSIX: its root (\<open>/\<close>, \<open>//\<close> or none) and its segments. Parsing drops
  empty segments and \<open>.\<close> segments and keeps \<open>..\<close>.
\<close>

record pure_path =
  path_root :: string
  path_parts :: "string list"

fun split_char :: "char \<Rightarrow> string \<Rightarrow> string list" where
  "split_char d [] = [[]]"
| "split_char d (c # cs) =
     (if c = d then [] # split_char d cs
      else (case split_char d cs of
              [] \<Rightarrow> [[c]]
            | piece # pieces \<Rightarrow> (c # piece) # pieces))"

fun join :: "string \<Rightarrow> string list \<Rightarrow> string" where
  "join sep [] = []"
| "join sep [x] = x"
| "join sep (x # y # ys) = x @ sep @ join sep (y # ys)"

definition Path :: "string \<Rightarrow> pure_path" where
  "Path p =
     \<lparr>path_root =
        (if prefix ''//'' p \<and> \<not> prefix ''///'' p then ''//''
         else if prefix ''/'' p then ''/''
         else []),
      path_parts = filter (\<lambda>x. x \<noteq> [] \<and> x \<noteq> ''.'') (split_char CHR ''/'' p)\<rparr>"

definition str_path :: "pure_path \<Rightarrow> string" where
  "str_path p =
     (if path_root p = [] \<and> path_parts p = [] then ''.''
      else path_root p @ join ''/'' (path_parts p))"

definition parent :: "pure_path \<Rightarrow> pure_path" where
  "parent p = p\<lparr>path_parts := butlast (path_parts p)\<rparr>"

definition name :: "pure_path \<Rightarrow> string" where
  "name p = (if path_parts p = [] then [] else last (path_parts p))"

text \<open>\<open>p / segment\<close>.\<close>

definition joinpath :: "pure_path \<Rightarrow> string \<Rightarrow> pure_path" where
  "joinpath p segment =
     (if prefix ''/'' segment then Path segment
      else p\<lparr>path_parts := path_parts p @ path_parts (Path segment)\<rparr>)"

subsection \<open>process\_file\<close>

text \<open>
  The split of the content: whether the warning is printed, the frontmatter and the body.
\<close>

definition split_document :: "string \<Rightarrow> bool \<times> string \<times> string" where
  "split_document text =
     (let pieces = py_split text ''---'' 2 in
      if length pieces < 3 then (True, [], text)
      else (False, pieces ! 1, pieces ! 2))"

definition target_path_str :: "pure_path \<Rightarrow> string \<Rightarrow> string" where
  "target_path_str path lang =
     (if py_in ''/ko/'' (str_path path)
      then py_replace (str_path path) ''/ko/'' (''/'' @ py_lower lang @ ''/'')
      else str_path (joinpath (joinpath (parent path) (py_lower lang)) (name path)))"

definition final_content :: "string \<Rightarrow> string \<Rightarrow> string" where
  "final_content translated_frontmatter translated_body =
     ''---'' @ translated_frontmatter @ ''---\<newline>\<newline>'' @ translated_body @ ''\<newline>''"

text \<open>
  The body of the loop over the languages. Creating the directories, opening the target and
  writing it are one call of the file system, which may raise.
\<close>

definition process_lang ::
  "'w env \<Rightarrow> pure_path \<Rightarrow> string \<Rightarrow> string \<Rightarrow> string \<Rightarrow> 'w state \<Rightarrow>
   (error + unit) \<times> 'w state" where
  "process_lang E path frontmatter body lang s =
     (let s0 = s\<lparr>out := out s @ [Starting_Translation lang]\<rparr> in
      case (if frontmatter \<noteq> [] then translate_frontmatter E frontmatter lang s0
            else (Inr [], s0)) of
        (Inl e, s1) \<Rightarrow> (Inl e, s1)
      | (Inr translated_frontmatter, s1) \<Rightarrow>
          (case call_llm E (py_strip body) lang False False s1 of
             (Inl e, s2) \<Rightarrow> (Inl e, s2)
           | (Inr translated_body, s2) \<Rightarrow>
               (let target = str_path (Path (target_path_str path lang)) in
                case write_text E target
                       (final_content translated_frontmatter translated_body) (world s2) of
                  (Some e, w) \<Rightarrow> (Inl e, s2\<lparr>world := w\<rparr>)
                | (None, w) \<Rightarrow>
                    (Inr (),
                     s2\<lparr>world := w,
                        files := (files s2)
                          (target \<mapsto> Inr (final_content translated_frontmatter translated_body)),
                        out := out s2 @ [Saved target]\<rparr>))))"

fun process_langs ::
  "'w env \<Rightarrow> pure_path \<Rightarrow> string \<Rightarrow> string \<Rightarrow> string list \<Rightarrow> 'w state \<Rightarrow>
   (error + unit) \<times> 'w state" where
  "process_langs E path frontmatter body [] s = (Inr (), s)"
| "process_langs E path frontmatter body (lang # langs) s =
     (case process_lang E path frontmatter body lang s of
        (Inl e, s') \<Rightarrow> (Inl e, s')
      | (Inr u, s') \<Rightarrow> process_langs E path frontmatter body langs s')"

text \<open>\<open>TranslationAgent.process_file\<close>.\<close>

definition process_file :: "'w env \<Rightarrow> string \<Rightarrow> 'w state \<Rightarrow> (error + unit) \<times> 'w state" where
  "process_file E file_path_str s =
     (let path = Path file_path_str in
      case files s (str_path path) of
        None \<Rightarrow> (Inr (), s\<lparr>out := out s @ [Error_File_Not_Found (str_path path)]\<rparr>)
      | Some reading \<Rightarrow>
          (let s0 = s\<lparr>out := out s @ [Processing_Post (name path)]\<rparr> in
           case reading of
             Inl e \<Rightarrow> (Inl e, s0)
           | Inr text \<Rightarrow>
               (case split_document text of
                  (warned, frontmatter, body) \<Rightarrow>
                    process_langs E path frontmatter body [''EN'', ''JP'']
                      (if warned then s0\<lparr>out := out s0 @ [Warning_No_Frontmatter]\<rparr> else s0))))"

section \<open>main.py\<close>

text \<open>
  The loop of \<open>main\<close> over the files to process: an exception of \<open>process_file\<close> is printed
  and the loop goes on with the next file.
\<close>

fun main_loop :: "'w env \<Rightarrow> string list \<Rightarrow> 'w state \<Rightarrow> 'w state" where
  "main_loop E [] s = s"
| "main_loop E (file_path # rest) s =
     (case process_file E file_path s of
        (Inr u, s') \<Rightarrow> main_loop E rest s'
      | (Inl e, s') \<Rightarrow>
          main_loop E rest (s'\<lparr>out := out s' @ [Error_Processing (name (Path file_path)) e]\<rparr>))"

section \<open>Concrete collaborators\<close>

text \<open>
  Concrete collaborators on which the program is run below. The world counts the chat calls
  and is the clock. The database is up, refuses connections, rejects the insert of a row
  (and rolls back), or has dropped a connection that was open (the insert and the rollback
  both raise).
\<close>

datatype database = Up | Refusing | Rejecting | Dropped

definition reply :: "string \<Rightarrow> error + response" where
  "reply text = Inr \<lparr>content = text, eval_duration = Some 2000000000, eval_count = Some 10\<rparr>"

text \<open>A backend that answers from a table and echoes any other text.\<close>

definition answering :: "(string \<times> string) list \<Rightarrow> string \<Rightarrow> error + response" where
  "answering table text = reply (dict_get table text text)"

text \<open>A backend that is unreachable for one text and echoes any other.\<close>

definition failing_on :: "string \<Rightarrow> string \<Rightarrow> error + response" where
  "failing_on bad text = (if text = bad then Inl (Exception ''unreachable'') else reply text)"

definition stub_env :: "(string \<Rightarrow> error + response) \<Rightarrow> database \<Rightarrow> nat env" where
  "stub_env chat db =
     \<lparr>ollama_chat = (\<lambda>model system_prompt text w. (chat text, Suc w)),
      ollama_generate = (\<lambda>model w. (None, w)),
      time_time = (\<lambda>w. real w),
      psycopg2_connect =
        (\<lambda>w. (if db = Refusing then Some (Exception ''connection refused'') else None, w)),
      execute_commit =
        (\<lambda>row w. (if db = Up then None else Some (Exception ''insert failed''), w)),
      rollback =
        (\<lambda>w. (if db = Dropped then Some (Exception ''connection already closed'') else None, w)),
      write_text = (\<lambda>path text w. (None, w))\<rparr>"

definition start :: "bool \<Rightarrow> (string \<rightharpoonup> (error + string)) \<Rightarrow> nat state" where
  "start has_conn store = \<lparr>world = 0, conn = has_conn, out = [], files = store\<rparr>"

text \<open>A backend that is unreachable for one model and echoes the text for any other.\<close>

definition stub_env_by_model :: "string \<Rightarrow> database \<Rightarrow> nat env" where
  "stub_env_by_model bad db =
     (stub_env reply db)
       \<lparr>ollama_chat :=
          (\<lambda>model system_prompt text w.
             (if model = bad then Inl (Exception ''unreachable'') else reply text, Suc w))\<rparr>"

text \<open>A post with a single newline between the closing delimiter and the body.\<close>

definition post :: string where
  "post = ''---\<newline>title: x\<newline>---\<newline>Body\<newline>''"

section \<open>Facts about the string operations\<close>

text \<open>
  \<open>py_partition\<close> finds the first occurrence: the separator does not occur before it, not
  even overlapping it.
\<close>

lemma py_partition_Some:
  "sep \<noteq> [] \<Longrightarrow> py_partition s sep = Some (a, b) \<Longrightarrow> s = a @ sep @ b"
proof (induction s arbitrary: a)
  case Nil
  then show ?case by simp
next
  case (Cons c cs)
  show ?case
  proof (cases "prefix sep (c # cs)")
    case True
    with Cons.prems have "a = []" "b = drop (length sep) (c # cs)" by auto
    moreover from True obtain r where "c # cs = sep @ r" by (auto simp: prefix_def)
    ultimately show ?thesis by simp
  next
    case False
    with Cons.prems obtain a' where "py_partition cs sep = Some (a', b)" "a = c # a'"
      by auto
    with Cons.IH [OF Cons.prems(1)] show ?thesis by simp
  qed
qed


lemma py_partition_None:
  "py_partition s sep = None \<Longrightarrow> \<not> sublist sep s"
proof (induction s)
  case Nil
  then show ?case by (simp split: if_splits)
next
  case (Cons c cs)
  then have "\<not> prefix sep (c # cs)" "py_partition cs sep = None"
    by (auto split: if_splits)
  with Cons.IH show ?case
    by (cases sep) (auto simp: sublist_Cons_right)
qed

lemma py_partition_intro:
  "sep \<noteq> [] \<Longrightarrow> \<not> sublist sep (a @ butlast sep) \<Longrightarrow> py_partition (a @ sep @ b) sep = Some (a, b)"
proof (induction a)
  case Nil
  then show ?case by (cases sep) auto
next
  case (Cons c a)
  have "\<not> prefix sep (c # a @ sep @ b)"
  proof
    assume p: "prefix sep (c # a @ sep @ b)"
    have "c # a @ sep @ b = ((c # a) @ butlast sep) @ (last sep # b)"
      using Cons.prems(1) by simp
    with p have "prefix sep (((c # a) @ butlast sep) @ (last sep # b))" by simp
    then have "prefix sep ((c # a) @ butlast sep) \<or>
      (\<exists>us. sep = ((c # a) @ butlast sep) @ us \<and> prefix us (last sep # b))"
      by (simp only: prefix_append)
    then show False
    proof
      assume "prefix sep ((c # a) @ butlast sep)"
      with Cons.prems(2) show False by (auto dest: prefix_imp_sublist)
    next
      assume "\<exists>us. sep = ((c # a) @ butlast sep) @ us \<and> prefix us (last sep # b)"
      then obtain us where us: "sep = ((c # a) @ butlast sep) @ us" by blast
      then have "length sep = length ((c # a) @ butlast sep) + length us" by (metis length_append)
      then have "length sep = Suc (length a) + (length sep - 1) + length us" by simp
      moreover have "0 < length sep" using Cons.prems(1) by simp
      ultimately have "length us = 0" by arith
      then have "us = []" by simp
      with us have "sep = (c # a) @ butlast sep" by simp
      then have "sublist sep ((c # a) @ butlast sep)" by (metis sublist_order.order_refl)
      with Cons.prems(2) show False by simp
    qed
  qed
  moreover have "\<not> sublist sep (a @ butlast sep)"
    using Cons.prems(2) by (auto simp: sublist_Cons_right)
  ultimately show ?case using Cons.IH [OF Cons.prems(1)] by simp
qed

lemma py_partition_None_intro:
  "sep \<noteq> [] \<Longrightarrow> \<not> sublist sep s \<Longrightarrow> py_partition s sep = None"
proof (induction s)
  case Nil
  then show ?case by simp
next
  case (Cons c cs)
  then have "\<not> prefix sep (c # cs)" "\<not> sublist sep cs"
    by (auto simp: sublist_Cons_right dest: prefix_imp_sublist)
  with Cons show ?case by simp
qed



lemma py_replace_partition_None:
  "old \<noteq> [] \<Longrightarrow> py_partition s old = None \<Longrightarrow> py_replace s old new = s"
  by (induction s) (auto split: if_splits)

lemma py_replace_partition_Some:
  "old \<noteq> [] \<Longrightarrow> py_partition s old = Some (a, b) \<Longrightarrow>
   py_replace s old new = a @ new @ py_replace b old new"
  by (induction s arbitrary: a) (auto split: if_splits)

lemma py_in_sublist:
  assumes "sub \<noteq> []"
  shows "py_in sub s = sublist sub s"
proof
  assume "py_in sub s"
  then obtain a b where "py_partition s sub = Some (a, b)" by (auto simp: py_in_def)
  then have "s = a @ sub @ b" using assms by (rule py_partition_Some [rotated])
  then show "sublist sub s" by (auto simp: sublist_def)
next
  assume "sublist sub s"
  then have "py_partition s sub \<noteq> None" using py_partition_None by blast
  then show "py_in sub s" by (simp add: py_in_def)
qed

section \<open>The inference call\<close>


lemma connect_chat_irrelevant:
  "connect (E\<lparr>ollama_chat := f\<rparr>) s = connect E s"
  by (simp add: connect_def)

lemma log_inference_chat_irrelevant:
  "log_inference (E\<lparr>ollama_chat := f\<rparr>) model src tgt input output latency tps score s =
   log_inference E model src tgt input output latency tps score s"
  by (simp add: log_inference_def connect_chat_irrelevant Let_def
      split: prod.splits option.splits)

text \<open>
  Claim C9. The model and the system prompt of an inference call are functions of the target
  language and the role alone. The backend is asked with exactly \<open>select_model\<close> and
  \<open>select_prompt\<close>, whatever the text and the state: a backend that raises for every other
  model or prompt gives the same run. Each language has its model and its base prompt; the
  tags role appends the output-format instruction and the metadata role the brevity
  instruction to the base prompt.
\<close>

theorem selection_by_language_and_role:
  "call_llm E text target_lang is_metadata is_tags s =
     call_llm
       (E\<lparr>ollama_chat :=
            (\<lambda>model system_prompt.
               if model = select_model target_lang \<and>
                  system_prompt = select_prompt target_lang is_metadata is_tags
               then ollama_chat E model system_prompt
               else (\<lambda>text w. (Inl (Exception []), w)))\<rparr>)
       text target_lang is_metadata is_tags s
   \<and> select_model ''EN'' = ''gemma2:9b''
   \<and> select_model ''JP'' = ''qwen2.5:7b''
   \<and> select_prompt ''EN'' False False = EN_PROMPT
   \<and> select_prompt ''JP'' False False = JP_PROMPT
   \<and> select_prompt target_lang is_metadata True =
       select_prompt target_lang False False @ TAGS_INSTRUCTION
   \<and> select_prompt target_lang True False =
       select_prompt target_lang False False @ METADATA_INSTRUCTION"
proof -
  have "call_llm E text target_lang is_metadata is_tags s =
     call_llm
       (E\<lparr>ollama_chat :=
            (\<lambda>model system_prompt.
               if model = select_model target_lang \<and>
                  system_prompt = select_prompt target_lang is_metadata is_tags
               then ollama_chat E model system_prompt
               else (\<lambda>text w. (Inl (Exception []), w)))\<rparr>)
       text target_lang is_metadata is_tags s"
    by (simp add: call_llm_def log_inference_chat_irrelevant Let_def
        split: prod.splits sum.splits option.splits)
  moreover have "select_model ''EN'' = ''gemma2:9b''" "select_model ''JP'' = ''qwen2.5:7b''"
    by (simp_all add: select_model_def MODELS_def dict_get_def)
  moreover have "select_prompt ''EN'' False False = EN_PROMPT"
    "select_prompt ''JP'' False False = JP_PROMPT"
    by (simp_all add: select_prompt_def SYSTEM_PROMPTS_def dict_get_def)
  moreover have "select_prompt target_lang is_metadata True =
       select_prompt target_lang False False @ TAGS_INSTRUCTION"
    "select_prompt target_lang True False =
       select_prompt target_lang False False @ METADATA_INSTRUCTION"
    by (simp_all add: select_prompt_def)
  ultimately show ?thesis by blast
qed

section \<open>Splitting the document\<close>



section \<open>The output path\<close>

lemma split_char_no_delimiter: "x \<in> set (split_char d s) \<Longrightarrow> d \<notin> set x"
  by (induction s arbitrary: x) (auto split: if_splits list.splits)

lemma split_char_plain: "d \<notin> set x \<Longrightarrow> split_char d x = [x]"
  by (induction x) auto

lemma Path_plain_segment:
  assumes "CHR ''/'' \<notin> set x" "x \<noteq> []" "x \<noteq> ''.''"
  shows "path_parts (Path x) = [x]" "\<not> prefix ''/'' x"
proof -
  show "path_parts (Path x) = [x]"
    using assms by (simp add: Path_def split_char_plain)
  show "\<not> prefix ''/'' x"
    using assms by (cases x) auto
qed

lemma joinpath_plain:
  assumes "CHR ''/'' \<notin> set x" "x \<noteq> []" "x \<noteq> ''.''"
  shows "joinpath q x = q\<lparr>path_parts := path_parts q @ [x]\<rparr>"
  using Path_plain_segment [OF assms] by (simp add: joinpath_def)

lemma Path_parts_plain:
  "x \<in> set (path_parts (Path p)) \<Longrightarrow> CHR ''/'' \<notin> set x \<and> x \<noteq> [] \<and> x \<noteq> ''.''"
  by (auto simp: Path_def dest: split_char_no_delimiter)

lemma py_lower_codes:
  "lang = ''EN'' \<or> lang = ''JP'' \<Longrightarrow>
   CHR ''/'' \<notin> set (py_lower lang) \<and> py_lower lang \<noteq> [] \<and> py_lower lang \<noteq> ''.''"
  by (auto simp: py_lower_def lower_char_def)

text \<open>
  Claim C7. The output path of a source path and a target language of the program. If the
  path, as \<open>str(path)\<close> prints it, contains \<open>/ko/\<close>, the segment is replaced by the
  lower-cased language code: the text before the first \<open>/ko/\<close> is kept, and so is the text
  after it when it holds no further \<open>/ko/\<close> (further ones are replaced the same way).
  Otherwise the output has the root and the directories of the source, then a directory
  named by the lower-cased code, then the file name of the source.
\<close>

theorem target_path_derivation:
  assumes "lang = ''EN'' \<or> lang = ''JP''"
  shows
    "(str_path (Path p) = a @ ''/ko/'' @ b \<and> \<not> sublist ''/ko/'' (a @ ''/ko'') \<longrightarrow>
        target_path_str (Path p) lang =
          a @ ''/'' @ py_lower lang @ ''/'' @ py_replace b ''/ko/'' (''/'' @ py_lower lang @ ''/'')) \<and>
     (\<not> sublist ''/ko/'' b \<longrightarrow> py_replace b ''/ko/'' (''/'' @ py_lower lang @ ''/'') = b) \<and>
     (\<not> sublist ''/ko/'' (str_path (Path p)) \<and> path_parts (Path p) = dirs @ [fname] \<longrightarrow>
        target_path_str (Path p) lang =
          str_path \<lparr>path_root = path_root (Path p), path_parts = dirs @ [py_lower lang, fname]\<rparr>)"
proof (intro conjI impI)
  assume h: "str_path (Path p) = a @ ''/ko/'' @ b \<and> \<not> sublist ''/ko/'' (a @ ''/ko'')"
  then have part: "py_partition (str_path (Path p)) ''/ko/'' = Some (a, b)"
    using py_partition_intro [of "''/ko/''" a b] by simp
  then have "py_in ''/ko/'' (str_path (Path p))" by (simp add: py_in_def)
  then show "target_path_str (Path p) lang =
      a @ ''/'' @ py_lower lang @ ''/'' @ py_replace b ''/ko/'' (''/'' @ py_lower lang @ ''/'')"
    using py_replace_partition_Some [OF _ part, of "''/'' @ py_lower lang @ ''/''"]
    by (simp add: target_path_str_def)
next
  assume "\<not> sublist ''/ko/'' b"
  then have "py_partition b ''/ko/'' = None" by (simp add: py_partition_None_intro)
  then show "py_replace b ''/ko/'' (''/'' @ py_lower lang @ ''/'') = b"
    by (simp add: py_replace_partition_None)
next
  assume h: "\<not> sublist ''/ko/'' (str_path (Path p)) \<and> path_parts (Path p) = dirs @ [fname]"
  then have no: "\<not> py_in ''/ko/'' (str_path (Path p))" by (simp add: py_in_sublist)
  have "fname \<in> set (path_parts (Path p))" using h by simp
  then have fname: "CHR ''/'' \<notin> set fname" "fname \<noteq> []" "fname \<noteq> ''.''"
    using Path_parts_plain by blast+
  have code: "CHR ''/'' \<notin> set (py_lower lang)" "py_lower lang \<noteq> []" "py_lower lang \<noteq> ''.''"
    using py_lower_codes [OF assms] by blast+
  have nm: "name (Path p) = fname" using h by (simp add: name_def)
  have par: "parent (Path p) = \<lparr>path_root = path_root (Path p), path_parts = dirs\<rparr>"
    using h by (simp add: parent_def)
  have j1: "joinpath (parent (Path p)) (py_lower lang) =
      \<lparr>path_root = path_root (Path p), path_parts = dirs @ [py_lower lang]\<rparr>"
    using joinpath_plain [OF code] by (simp add: par)
  have j2: "joinpath (joinpath (parent (Path p)) (py_lower lang)) fname =
      \<lparr>path_root = path_root (Path p), path_parts = dirs @ [py_lower lang, fname]\<rparr>"
    unfolding j1 using joinpath_plain [OF fname] by simp
  show "target_path_str (Path p) lang =
      str_path \<lparr>path_root = path_root (Path p), path_parts = dirs @ [py_lower lang, fname]\<rparr>"
    using no by (simp add: target_path_str_def nm j2)
qed



lemmas path_eval = Path_def str_path_def py_lower_def lower_char_def

theorem target_path_derivation_witness:
  "(''EN'' = ''EN'' \<or> ''EN'' = ''JP'') \<and>
   str_path (Path ''/home/u/src/content/blog/ko/post.mdx'') =
     ''/home/u/src/content/blog'' @ ''/ko/'' @ ''post.mdx'' \<and>
   \<not> sublist ''/ko/'' (''/home/u/src/content/blog'' @ ''/ko'') \<and>
   \<not> sublist ''/ko/'' ''post.mdx'' \<and>
   target_path_str (Path ''/home/u/src/content/blog/ko/post.mdx'') ''EN'' =
     ''/home/u/src/content/blog/en/post.mdx'' \<and>
   \<not> sublist ''/ko/'' (str_path (Path ''/home/u/notes/post.mdx'')) \<and>
   path_parts (Path ''/home/u/notes/post.mdx'') = [''home'', ''u'', ''notes''] @ [''post.mdx''] \<and>
   target_path_str (Path ''/home/u/notes/post.mdx'') ''EN'' = ''/home/u/notes/en/post.mdx''"
proof -
  have l: "''EN'' = ''EN'' \<or> ''EN'' = ''JP''" by simp
  have s1: "str_path (Path ''/home/u/src/content/blog/ko/post.mdx'') =
     ''/home/u/src/content/blog'' @ ''/ko/'' @ ''post.mdx''"
    by (simp add: path_eval)
  have n1: "\<not> sublist ''/ko/'' (''/home/u/src/content/blog'' @ ''/ko'')"
    by (simp add: sublist_Cons_right)
  have n2: "\<not> sublist ''/ko/'' ''post.mdx''"
    by (simp add: sublist_Cons_right)
  have n3: "\<not> sublist ''/ko/'' (str_path (Path ''/home/u/notes/post.mdx''))"
    by (simp add: path_eval sublist_Cons_right)
  have p3: "path_parts (Path ''/home/u/notes/post.mdx'') = [''home'', ''u'', ''notes''] @ [''post.mdx'']"
    by (simp add: path_eval)
  have rt: "path_root (Path ''/home/u/notes/post.mdx'') = ''/''"
    by (simp add: Path_def)
  note t1 = target_path_derivation [OF l, of "''/home/u/src/content/blog/ko/post.mdx''"
      "''/home/u/src/content/blog''" "''post.mdx''"]
  note t2 = target_path_derivation [OF l, of "''/home/u/notes/post.mdx''" _ _
      "[''home'', ''u'', ''notes'']" "''post.mdx''"]
  have r1: "target_path_str (Path ''/home/u/src/content/blog/ko/post.mdx'') ''EN'' =
     ''/home/u/src/content/blog/en/post.mdx''"
    using t1 s1 n1 n2 by (simp add: py_lower_def lower_char_def)
  have r2: "target_path_str (Path ''/home/u/notes/post.mdx'') ''EN'' = ''/home/u/notes/en/post.mdx''"
    using t2 n3 p3 rt by (simp add: str_path_def py_lower_def lower_char_def)
  show ?thesis using l s1 n1 n2 n3 p3 r1 r2 by simp
qed

section \<open>The frontmatter transcoder\<close>

text \<open>A search result splits the text it was found in.\<close>

lemma strip_leading_suffix: "suffix (strip_leading ws s) s"
proof (induction ws s rule: strip_leading.induct)
  case (1 ws)
  then show ?case by simp
next
  case (2 ws c cs)
  show ?case
  proof (cases "leading ws (c # cs) = 0")
    case True
    then show ?thesis by simp
  next
    case False
    then have "suffix (strip_leading ws (drop (leading ws (c # cs)) (c # cs)))
        (drop (leading ws (c # cs)) (c # cs))"
      using 2 by simp
    moreover have "suffix (drop (leading ws (c # cs)) (c # cs)) (c # cs)"
      by (rule suffix_drop)
    ultimately have "suffix (strip_leading ws (drop (leading ws (c # cs)) (c # cs))) (c # cs)"
      by (rule suffix_order.trans)
    with False show ?thesis by simp
  qed
qed

lemma take_suffix: "suffix t s \<Longrightarrow> take (length s - length t) s @ t = s"
  by (auto simp: suffix_def)

lemma lazy_dots_append: "lazy_dots closing s = Some (g, r) \<Longrightarrow> s = g @ r"
  by (induction s arbitrary: g) (auto split: if_splits)


lemma match_bracketed_append:
  assumes "match_bracketed key s = Some (a, g, b)"
  shows "s = a @ g @ b"
proof -
  from assms obtain br aft g' r where
    rest: "py_lstrip (drop (length key) s) = br # aft" and
    lz: "lazy_dots (\<lambda>c. c = CHR '']'') aft = Some (g', r)" and
    a: "a = take (length s - length (br # aft)) s" and
    g: "g = br # g' @ take 1 r" and b: "b = drop 1 r"
    by (auto simp: match_bracketed_def Let_def split: if_splits list.splits)
  have "suffix (br # aft) (drop (length key) s)"
    using strip_leading_suffix [of whitespace "drop (length key) s"] rest
    by (simp add: py_lstrip_def)
  then have "suffix (br # aft) s"
    using suffix_drop suffix_order.trans by blast
  then have "take (length s - length (br # aft)) s @ (br # aft) = s" by (rule take_suffix)
  moreover have "aft = g' @ take 1 r @ drop 1 r" using lazy_dots_append [OF lz] by simp
  ultimately show ?thesis using a g b by simp
qed

lemma re_search_append:
  assumes "\<And>s a g b. m s = Some (a, g, b) \<Longrightarrow> s = a @ g @ b"
  shows "re_search m s = Some (a, g, b) \<Longrightarrow> s = a @ g @ b"
proof (induction s arbitrary: a)
  case Nil
  then show ?case using assms by simp
next
  case (Cons c cs)
  show ?case
  proof (cases "m (c # cs)")
    case None
    with Cons.prems obtain a' where "re_search m cs = Some (a', g, b)" "a = c # a'"
      by auto
    with Cons.IH show ?thesis by simp
  next
    case (Some r)
    with Cons.prems have "m (c # cs) = Some (a, g, b)" by simp
    then show ?thesis by (rule assms)
  qed
qed


lemma re_search_bracketed_append:
  "re_search (match_bracketed key) s = Some (a, g, b) \<Longrightarrow> s = a @ g @ b"
  using re_search_append [of "match_bracketed key" s a g b] match_bracketed_append by blast

lemma py_replace_unique:
  assumes "old \<noteq> []" "\<not> sublist old (a @ butlast old)" "\<not> sublist old b"
  shows "py_replace (a @ old @ b) old new = a @ new @ b"
proof -
  have "py_partition (a @ old @ b) old = Some (a, b)"
    using assms by (simp add: py_partition_intro)
  moreover have "py_partition b old = None"
    using assms by (simp add: py_partition_None_intro)
  ultimately show ?thesis
    using assms(1) by (simp add: py_replace_partition_Some py_replace_partition_None)
qed

text \<open>The definitions that running the program on concrete collaborators unfolds.\<close>

lemmas eval_defs = stub_env_def start_def reply_def answering_def failing_on_def dict_get_def
  call_llm_def log_inference_def connect_def tps_of_def py_truediv_def result_text_of_def
  py_strip_def py_lstrip_def py_rstrip_def whitespace_def select_model_def MODELS_def role_label_def
  translate_frontmatter_def translate_quoted_def translate_tags_def match_quoted_def
  match_bracketed_def is_quote_def quoted_def py_in_def py_len_def Let_def




lemma re_search_bracketed_nonempty:
  "re_search (match_bracketed key) s = Some (a, g, b) \<Longrightarrow> g \<noteq> []"
proof (induction s arbitrary: a)
  case Nil
  then show ?case by (auto simp: match_bracketed_def Let_def split: if_splits list.splits)
next
  case (Cons c cs)
  show ?case
  proof (cases "match_bracketed key (c # cs)")
    case None
    with Cons.prems obtain a' where "re_search (match_bracketed key) cs = Some (a', g, b)"
      by auto
    then show ?thesis by (rule Cons.IH)
  next
    case (Some r)
    with Cons.prems have "match_bracketed key (c # cs) = Some (a, g, b)" by simp
    then show ?thesis
      by (auto simp: match_bracketed_def Let_def split: if_splits list.splits)
  qed
qed

text \<open>
  Claim C2, as the code has it. The tags step works on the block as the title and the
  description steps left it. If the translated tags text lacks an opening or a closing
  bracket, the step changes no byte of that block and the warning is printed; if it has
  both brackets, the occurrences of the original bracket literal in that block are replaced
  by the translated text. When no title and no description are translated, that block is the
  input block; and a literal that occurs once is replaced in place.
\<close>

theorem tags_step_keeps_or_replaces:
  assumes "re_search (match_bracketed ''tags:'') fm = Some (before, tags, after)"
    and "translate_quoted E ''title:'' fm lang fm s = (Inr with_title, s1)"
    and "translate_quoted E ''description:'' fm lang with_title s1 = (Inr with_description, s2)"
    and "call_llm E tags lang False True s2 = (Inr translated, s3)"
  shows
    "(\<not> (sublist ''['' translated \<and> sublist '']'' translated) \<longrightarrow>
        translate_frontmatter E fm lang s =
          (Inr with_description, s3\<lparr>out := out s3 @ [Warning_Tags_Format]\<rparr>)) \<and>
     (sublist ''['' translated \<and> sublist '']'' translated \<longrightarrow>
        translate_frontmatter E fm lang s =
          (Inr (py_replace with_description tags translated), s3)) \<and>
     (re_search (match_quoted ''title:'') fm = None \<and>
      re_search (match_quoted ''description:'') fm = None \<longrightarrow>
        with_description = before @ tags @ after) \<and>
     (\<not> sublist tags (before @ butlast tags) \<and> \<not> sublist tags after \<longrightarrow>
        py_replace (before @ tags @ after) tags translated = before @ translated @ after)"
proof -
  have valid: "(py_in ''['' translated \<and> py_in '']'' translated) =
      (sublist ''['' translated \<and> sublist '']'' translated)"
    by (simp add: py_in_sublist)
  have tf: "translate_frontmatter E fm lang s = translate_tags E fm lang with_description s2"
    using assms(2,3) by (simp add: translate_frontmatter_def)
  have tt: "translate_tags E fm lang with_description s2 =
      (if py_in ''['' translated \<and> py_in '']'' translated
       then (Inr (py_replace with_description tags translated), s3)
       else (Inr with_description, s3\<lparr>out := out s3 @ [Warning_Tags_Format]\<rparr>))"
    using assms(1,4) by (simp add: translate_tags_def)
  have fm: "fm = before @ tags @ after"
    using assms(1) by (rule re_search_bracketed_append)
  have same: "with_description = before @ tags @ after"
    if "re_search (match_quoted ''title:'') fm = None"
      "re_search (match_quoted ''description:'') fm = None"
    using that assms(2,3) fm by (simp add: translate_quoted_def)
  have ne: "tags \<noteq> []"
    using assms(1) by (rule re_search_bracketed_nonempty)
  have uniq: "py_replace (before @ tags @ after) tags translated = before @ translated @ after"
    if "\<not> sublist tags (before @ butlast tags)" "\<not> sublist tags after"
    using ne that by (rule py_replace_unique)
  show ?thesis
    using tf tt valid same uniq by simp
qed

theorem tags_step_keeps_or_replaces_witness:
  "re_search (match_bracketed ''tags:'') ''\<newline>title: 'Post'\<newline>tags: ['AI', 'Blog']\<newline>'' =
     Some (''\<newline>title: 'Post'\<newline>tags: '', ''['AI', 'Blog']'', ''\<newline>'') \<and>
   \<not> (sublist ''['' ''AI, Blog'' \<and> sublist '']'' ''AI, Blog'') \<and>
   fst (translate_frontmatter
          (stub_env (answering [(''Post'', ''Entry''), (''['AI', 'Blog']'', ''AI, Blog'')]) Up)
          ''\<newline>title: 'Post'\<newline>tags: ['AI', 'Blog']\<newline>'' ''EN'' (start True Map.empty)) =
     Inr ''\<newline>title: 'Entry'\<newline>tags: ['AI', 'Blog']\<newline>'' \<and>
   re_search (match_bracketed ''tags:'') ''\<newline>tags: ['AI', 'Blog']\<newline>'' =
     Some (''\<newline>tags: '', ''['AI', 'Blog']'', ''\<newline>'') \<and>
   (sublist ''['' ''['KI', 'Blog']'' \<and> sublist '']'' ''['KI', 'Blog']'') \<and>
   fst (translate_frontmatter
          (stub_env (answering [(''['AI', 'Blog']'', ''```json\<newline>['KI', 'Blog']\<newline>```'')]) Up)
          ''\<newline>tags: ['AI', 'Blog']\<newline>'' ''EN'' (start True Map.empty)) =
     Inr ''\<newline>tags: ['KI', 'Blog']\<newline>''"
proof -
  let ?s = "start True Map.empty :: nat state"
  let ?tags = "''['AI', 'Blog']''"
  let ?E1 = "stub_env (answering [(''Post'', ''Entry''), (?tags, ''AI, Blog'')]) Up"
  let ?fm1 = "''\<newline>title: 'Post'\<newline>tags: ['AI', 'Blog']\<newline>''"
  let ?wt1 = "''\<newline>title: 'Entry'\<newline>tags: ['AI', 'Blog']\<newline>''"
  let ?a1 = "translate_quoted ?E1 ''title:'' ?fm1 ''EN'' ?fm1 ?s"
  let ?b1 = "translate_quoted ?E1 ''description:'' ?fm1 ''EN'' ?wt1 (snd ?a1)"
  let ?c1 = "call_llm ?E1 ?tags ''EN'' False True (snd ?b1)"
  have m1: "re_search (match_bracketed ''tags:'') ?fm1 =
      Some (''\<newline>title: 'Post'\<newline>tags: '', ?tags, ''\<newline>'')"
    by (simp add: match_bracketed_def py_lstrip_def whitespace_def)
  have a1: "?a1 = (Inr ?wt1, snd ?a1)" by (simp add: eval_defs prod_eq_iff)
  have b1: "?b1 = (Inr ?wt1, snd ?b1)" by (simp add: eval_defs prod_eq_iff)
  have c1: "?c1 = (Inr ''AI, Blog'', snd ?c1)" by (simp add: eval_defs prod_eq_iff)
  have n1: "\<not> (sublist ''['' ''AI, Blog'' \<and> sublist '']'' ''AI, Blog'')"
    by (simp add: sublist_Cons_right)
  have r1: "fst (translate_frontmatter ?E1 ?fm1 ''EN'' ?s) = Inr ?wt1"
    using tags_step_keeps_or_replaces [OF m1 a1 b1 c1] n1 by simp
  let ?E2 = "stub_env (answering [(?tags, ''```json\<newline>['KI', 'Blog']\<newline>```'')]) Up"
  let ?fm2 = "''\<newline>tags: ['AI', 'Blog']\<newline>''"
  let ?a2 = "translate_quoted ?E2 ''title:'' ?fm2 ''EN'' ?fm2 ?s"
  let ?b2 = "translate_quoted ?E2 ''description:'' ?fm2 ''EN'' ?fm2 (snd ?a2)"
  let ?c2 = "call_llm ?E2 ?tags ''EN'' False True (snd ?b2)"
  have m2: "re_search (match_bracketed ''tags:'') ?fm2 = Some (''\<newline>tags: '', ?tags, ''\<newline>'')"
    by (simp add: match_bracketed_def py_lstrip_def whitespace_def)
  have a2: "?a2 = (Inr ?fm2, snd ?a2)" by (simp add: eval_defs prod_eq_iff)
  have b2: "?b2 = (Inr ?fm2, snd ?b2)" by (simp add: eval_defs prod_eq_iff)
  have c2: "?c2 = (Inr ''['KI', 'Blog']'', snd ?c2)" by (simp add: eval_defs prod_eq_iff)
  have v2: "sublist ''['' ''['KI', 'Blog']'' \<and> sublist '']'' ''['KI', 'Blog']''"
    by (simp add: sublist_Cons_right)
  have t2: "re_search (match_quoted ''title:'') ?fm2 = None \<and>
      re_search (match_quoted ''description:'') ?fm2 = None"
    by (simp add: match_quoted_def)
  have u2: "\<not> sublist ?tags (''\<newline>tags: '' @ butlast ?tags) \<and> \<not> sublist ?tags ''\<newline>''"
    by (simp add: sublist_Cons_right)
  note th2 = tags_step_keeps_or_replaces [OF m2 a2 b2 c2]
  have "translate_frontmatter ?E2 ?fm2 ''EN'' ?s =
      (Inr (py_replace ?fm2 ?tags ''['KI', 'Blog']''), snd ?c2)"
    using th2 v2 by blast
  moreover have "py_replace (''\<newline>tags: '' @ ?tags @ ''\<newline>'') ?tags ''['KI', 'Blog']'' =
      ''\<newline>tags: '' @ ''['KI', 'Blog']'' @ ''\<newline>''"
    using th2 u2 by blast
  ultimately have r2: "fst (translate_frontmatter ?E2 ?fm2 ''EN'' ?s) = Inr ''\<newline>tags: ['KI', 'Blog']\<newline>''"
    by simp
  from m1 n1 r1 m2 v2 r2 show ?thesis by blast
qed

text \<open>
  The claim as stated fails: the tags field of the output need not equal the original tags
  text when the translation is discarded, since the title step rewrites the quoted title
  text inside the tags literal as well.
\<close>

theorem tags_field_counterexample:
  "re_search (match_bracketed ''tags:'') ''\<newline>title: 'AI'\<newline>tags: ['AI']\<newline>'' =
     Some (''\<newline>title: 'AI'\<newline>tags: '', ''['AI']'', ''\<newline>'') \<and>
   translate_frontmatter (stub_env (answering [(''AI'', ''KI''), (''['AI']'', ''KI'')]) Up)
       ''\<newline>title: 'AI'\<newline>tags: ['AI']\<newline>'' ''EN'' (start True Map.empty) =
     (Inr ''\<newline>title: 'KI'\<newline>tags: ['KI']\<newline>'',
      \<lparr>world = 2, conn = True,
       out = [Inference ''gemma2:9b'' ''EN'' ''Metadata'', DB_Log_Saved ''gemma2:9b'' 1000 5,
              Inference ''gemma2:9b'' ''EN'' ''Tags'', DB_Log_Saved ''gemma2:9b'' 1000 5,
              Warning_Tags_Format],
       files = Map.empty\<rparr>) \<and>
   re_search (match_bracketed ''tags:'') ''\<newline>title: 'KI'\<newline>tags: ['KI']\<newline>'' =
     Some (''\<newline>title: 'KI'\<newline>tags: '', ''['KI']'', ''\<newline>'')"
  by (simp add: eval_defs)

text \<open>
  Claim C3, as the code has it. The three steps share no handler: a failure of the model
  call for the title, for the description or for the tags leaves the transcoder at once
  with that exception, in the state of the failed call, and the fields after it are not
  attempted.
\<close>

theorem field_failure_aborts_transcoding:
  "(re_search (match_quoted ''title:'') fm = Some (a1, title, b1) \<and>
    call_llm E title lang True False s = (Inl e, s') \<longrightarrow>
      translate_frontmatter E fm lang s = (Inl e, s')) \<and>
   (translate_quoted E ''title:'' fm lang fm s = (Inr with_title, s1) \<and>
    re_search (match_quoted ''description:'') fm = Some (a2, description, b2) \<and>
    call_llm E description lang True False s1 = (Inl e, s') \<longrightarrow>
      translate_frontmatter E fm lang s = (Inl e, s')) \<and>
   (translate_quoted E ''title:'' fm lang fm s = (Inr with_title, s1) \<and>
    translate_quoted E ''description:'' fm lang with_title s1 = (Inr with_description, s2) \<and>
    re_search (match_bracketed ''tags:'') fm = Some (a3, tags, b3) \<and>
    call_llm E tags lang False True s2 = (Inl e, s') \<longrightarrow>
      translate_frontmatter E fm lang s = (Inl e, s'))"
  by (simp add: translate_frontmatter_def translate_quoted_def translate_tags_def)

theorem field_failure_aborts_transcoding_witness:
  "translate_frontmatter (stub_env (failing_on ''A'') Up)
       ''\<newline>title: 'A'\<newline>description: 'B'\<newline>tags: ['C']\<newline>'' ''EN'' (start True Map.empty) =
     (Inl (Exception ''unreachable''),
      snd (call_llm (stub_env (failing_on ''A'') Up) ''A'' ''EN'' True False (start True Map.empty))) \<and>
   fst (translate_frontmatter (stub_env (failing_on ''B'') Up)
       ''\<newline>title: 'A'\<newline>description: 'B'\<newline>tags: ['C']\<newline>'' ''EN'' (start True Map.empty)) =
     Inl (Exception ''unreachable'') \<and>
   fst (translate_frontmatter (stub_env (failing_on ''['C']'') Up)
       ''\<newline>title: 'A'\<newline>description: 'B'\<newline>tags: ['C']\<newline>'' ''EN'' (start True Map.empty)) =
     Inl (Exception ''unreachable'')"
proof -
  let ?s = "start True Map.empty :: nat state"
  let ?fm = "''\<newline>title: 'A'\<newline>description: 'B'\<newline>tags: ['C']\<newline>''"
  let ?e = "Exception ''unreachable''"
  have mt: "re_search (match_quoted ''title:'') ?fm =
      Some (''\<newline>title: '' @ [CHR 0x27], ''A'', CHR 0x27 # ''\<newline>description: 'B'\<newline>tags: ['C']\<newline>'')"
    by (simp add: match_quoted_def py_lstrip_def whitespace_def is_quote_def)
  have md: "re_search (match_quoted ''description:'') ?fm =
      Some (''\<newline>title: 'A'\<newline>description: '' @ [CHR 0x27], ''B'', CHR 0x27 # ''\<newline>tags: ['C']\<newline>'')"
    by (simp add: match_quoted_def py_lstrip_def whitespace_def is_quote_def)
  have mg: "re_search (match_bracketed ''tags:'') ?fm =
      Some (''\<newline>title: 'A'\<newline>description: 'B'\<newline>tags: '', ''['C']'', ''\<newline>'')"
    by (simp add: match_bracketed_def match_quoted_def py_lstrip_def whitespace_def)
  let ?EA = "stub_env (failing_on ''A'') Up"
  let ?cA = "call_llm ?EA ''A'' ''EN'' True False ?s"
  have cA: "?cA = (Inl ?e, snd ?cA)" by (simp add: eval_defs prod_eq_iff)
  have rA: "translate_frontmatter ?EA ?fm ''EN'' ?s = (Inl ?e, snd ?cA)"
    using field_failure_aborts_transcoding [where E = ?EA and fm = ?fm and lang = "''EN''"
        and s = ?s and title = "''A''" and e = ?e and s' = "snd ?cA"] mt cA
    by blast
  let ?EB = "stub_env (failing_on ''B'') Up"
  let ?tB = "translate_quoted ?EB ''title:'' ?fm ''EN'' ?fm ?s"
  let ?cB = "call_llm ?EB ''B'' ''EN'' True False (snd ?tB)"
  have tB: "?tB = (Inr ?fm, snd ?tB)" by (simp add: eval_defs prod_eq_iff)
  have cB: "?cB = (Inl ?e, snd ?cB)" by (simp add: eval_defs prod_eq_iff)
  have "translate_frontmatter ?EB ?fm ''EN'' ?s = (Inl ?e, snd ?cB)"
    using field_failure_aborts_transcoding [where E = ?EB and fm = ?fm and lang = "''EN''"
        and s = ?s and description = "''B''" and e = ?e and s' = "snd ?cB"
        and ?s1.0 = "snd ?tB" and with_title = ?fm] md tB cB
    by blast
  then have rB: "fst (translate_frontmatter ?EB ?fm ''EN'' ?s) = Inl ?e" by simp
  let ?EC = "stub_env (failing_on ''['C']'') Up"
  let ?tC = "translate_quoted ?EC ''title:'' ?fm ''EN'' ?fm ?s"
  let ?dC = "translate_quoted ?EC ''description:'' ?fm ''EN'' ?fm (snd ?tC)"
  let ?cC = "call_llm ?EC ''['C']'' ''EN'' False True (snd ?dC)"
  have tC: "?tC = (Inr ?fm, snd ?tC)" by (simp add: eval_defs prod_eq_iff)
  have dC: "?dC = (Inr ?fm, snd ?dC)" by (simp add: eval_defs prod_eq_iff)
  have cC: "?cC = (Inl ?e, snd ?cC)" by (simp add: eval_defs prod_eq_iff)
  have "translate_frontmatter ?EC ?fm ''EN'' ?s = (Inl ?e, snd ?cC)"
    using field_failure_aborts_transcoding [where E = ?EC and fm = ?fm and lang = "''EN''"
        and s = ?s and tags = "''['C']''" and e = ?e and s' = "snd ?cC"
        and ?s1.0 = "snd ?tC" and with_title = ?fm and ?s2.0 = "snd ?dC"
        and with_description = ?fm] mg tC dC cC
    by blast
  then have rC: "fst (translate_frontmatter ?EC ?fm ''EN'' ?s) = Inl ?e" by simp
  from rA rB rC show ?thesis by blast
qed

text \<open>
  The claim as stated fails: when the call for the title raises, the transcoder raises after
  one call of the backend, although the calls for the description and for the tags would
  have succeeded.
\<close>

theorem field_isolation_counterexample:
  "translate_frontmatter (stub_env (failing_on ''A'') Up)
       ''\<newline>title: 'A'\<newline>description: 'B'\<newline>tags: ['C']\<newline>'' ''EN'' (start True Map.empty) =
     (Inl (Exception ''unreachable''),
      \<lparr>world = 1, conn = True, out = [Inference ''gemma2:9b'' ''EN'' ''Metadata''],
       files = Map.empty\<rparr>) \<and>
   fst (call_llm (stub_env (failing_on ''A'') Up) ''B'' ''EN'' True False (start True Map.empty)) =
     Inr ''B'' \<and>
   fst (call_llm (stub_env (failing_on ''A'') Up) ''['C']'' ''EN'' False True (start True Map.empty)) =
     Inr ''['C']''"
  by (simp add: eval_defs)

section \<open>Processing a file\<close>

text \<open>The definitions that running \<open>process_file\<close> on a concrete file unfolds.\<close>

lemmas run_defs = process_file_def process_lang_def split_document_def final_content_def
  target_path_str_def Path_def str_path_def parent_def name_def joinpath_def py_lower_def
  lower_char_def numeral_2_eq_2 stub_env_by_model_def post_def

text \<open>
  Claim C6, as the code has it. When the frontmatter is transcoded, the body is translated
  and the target is written, the output is the delimiter, the transcoded frontmatter, the
  delimiter, a blank line, the translated body and a newline. The output therefore starts
  with the delimiter, and when the transcoded frontmatter holds no delimiter, splitting the
  output again gives this frontmatter and the translated body between one blank line and
  one newline: the spacing around the body is that of the template, whatever the input had.
\<close>

theorem reassembled_document_template:
  assumes "(if frontmatter \<noteq> []
            then translate_frontmatter E frontmatter lang
                   (s\<lparr>out := out s @ [Starting_Translation lang]\<rparr>)
            else (Inr [], s\<lparr>out := out s @ [Starting_Translation lang]\<rparr>)) = (Inr fm', s1)"
    and "call_llm E (py_strip body) lang False False s1 = (Inr tb, s2)"
    and "write_text E (str_path (Path (target_path_str path lang)))
           (''---'' @ fm' @ ''---\<newline>\<newline>'' @ tb @ ''\<newline>'') (world s2) = (None, w)"
  shows
    "fst (process_lang E path frontmatter body lang s) = Inr () \<and>
     files (snd (process_lang E path frontmatter body lang s))
       (str_path (Path (target_path_str path lang))) =
       Some (Inr (''---'' @ fm' @ ''---\<newline>\<newline>'' @ tb @ ''\<newline>'')) \<and>
     (\<not> sublist ''---'' (fm' @ ''--'') \<longrightarrow>
        split_document (''---'' @ fm' @ ''---\<newline>\<newline>'' @ tb @ ''\<newline>'') =
          (False, fm', ''\<newline>\<newline>'' @ tb @ ''\<newline>''))"
proof -
  have run: "process_lang E path frontmatter body lang s =
      (Inr (),
       s2\<lparr>world := w,
          files := (files s2)
            (str_path (Path (target_path_str path lang)) \<mapsto>
               Inr (''---'' @ fm' @ ''---\<newline>\<newline>'' @ tb @ ''\<newline>'')),
          out := out s2 @ [Saved (str_path (Path (target_path_str path lang)))]\<rparr>)"
    using assms by (simp add: process_lang_def final_content_def Let_def)
  have split: "split_document (''---'' @ fm' @ ''---\<newline>\<newline>'' @ tb @ ''\<newline>'') =
      (False, fm', ''\<newline>\<newline>'' @ tb @ ''\<newline>'')"
    if "\<not> sublist ''---'' (fm' @ ''--'')"
  proof -
    have p1: "py_partition ([] @ ''---'' @ (fm' @ ''---'' @ (''\<newline>\<newline>'' @ tb @ ''\<newline>''))) ''---'' =
        Some ([], fm' @ ''---'' @ (''\<newline>\<newline>'' @ tb @ ''\<newline>''))"
      by (rule py_partition_intro) (simp_all add: sublist_Cons_right)
    have p2: "py_partition (fm' @ ''---'' @ (''\<newline>\<newline>'' @ tb @ ''\<newline>'')) ''---'' =
        Some (fm', ''\<newline>\<newline>'' @ tb @ ''\<newline>'')"
      using that by (intro py_partition_intro) simp_all
    show ?thesis
      using p1 p2 by (simp add: split_document_def numeral_2_eq_2)
  qed
  show ?thesis using run split by simp
qed

theorem reassembled_document_template_witness:
  "fst (process_lang (stub_env reply Up) (Path ''/blog/ko/p.mdx'') ''\<newline>title: x\<newline>''
          ''\<newline>Body\<newline>'' ''EN'' (start True Map.empty)) = Inr () \<and>
   files (snd (process_lang (stub_env reply Up) (Path ''/blog/ko/p.mdx'') ''\<newline>title: x\<newline>''
          ''\<newline>Body\<newline>'' ''EN'' (start True Map.empty))) ''/blog/en/p.mdx'' =
     Some (Inr ''---\<newline>title: x\<newline>---\<newline>\<newline>Body\<newline>'') \<and>
   \<not> sublist ''---'' (''\<newline>title: x\<newline>'' @ ''--'') \<and>
   split_document ''---\<newline>title: x\<newline>---\<newline>\<newline>Body\<newline>'' =
     (False, ''\<newline>title: x\<newline>'', ''\<newline>\<newline>Body\<newline>'')"
proof -
  let ?E = "stub_env reply Up"
  let ?s = "start True Map.empty :: nat state"
  let ?fm = "''\<newline>title: x\<newline>''"
  let ?body = "''\<newline>Body\<newline>''"
  let ?path = "Path ''/blog/ko/p.mdx''"
  let ?st = "?s\<lparr>out := out ?s @ [Starting_Translation ''EN'']\<rparr>"
  let ?t = "translate_frontmatter ?E ?fm ''EN'' ?st"
  let ?c = "call_llm ?E (py_strip ?body) ''EN'' False False (snd ?t)"
  have tp: "str_path (Path (target_path_str ?path ''EN'')) = ''/blog/en/p.mdx''"
    by (simp add: run_defs py_in_def)
  have h1: "(if ?fm \<noteq> [] then ?t else (Inr [], ?st)) = (Inr ?fm, snd ?t)"
    by (simp add: eval_defs prod_eq_iff)
  have h2: "?c = (Inr ''Body'', snd ?c)"
    by (simp add: eval_defs prod_eq_iff)
  have h3: "write_text ?E (str_path (Path (target_path_str ?path ''EN'')))
      (''---'' @ ?fm @ ''---\<newline>\<newline>'' @ ''Body'' @ ''\<newline>'') (world (snd ?c)) = (None, world (snd ?c))"
    by (simp add: stub_env_def)
  have n: "\<not> sublist ''---'' (?fm @ ''--'')"
    by (simp add: sublist_Cons_right)
  note th = reassembled_document_template [OF h1 h2 h3]
  show ?thesis using th n tp by simp
qed

text \<open>
  The claim as stated fails: a post with a single newline between the closing delimiter and
  the body comes out, from a backend that returns every text unchanged, with a blank line
  there.
\<close>

theorem spacing_counterexample:
  "py_count post ''---'' = 2 \<and>
   split_document post = (False, ''\<newline>title: x\<newline>'', ''\<newline>Body\<newline>'') \<and>
   files (snd (process_file (stub_env reply Up) ''/blog/ko/p.mdx''
                 (start True [''/blog/ko/p.mdx'' \<mapsto> Inr post]))) ''/blog/en/p.mdx'' =
     Some (Inr ''---\<newline>title: x\<newline>---\<newline>\<newline>Body\<newline>'') \<and>
   split_document ''---\<newline>title: x\<newline>---\<newline>\<newline>Body\<newline>'' =
     (False, ''\<newline>title: x\<newline>'', ''\<newline>\<newline>Body\<newline>'')"
  by (simp add: run_defs eval_defs)

text \<open>
  Claim C4, as the code has it. A failure while translating for the first language ends
  \<open>process_file\<close> with that exception, in the state of the failure: the second language is
  not attempted for that file. The loop of \<open>main\<close> catches the exception, prints it and goes
  on with the next file.
\<close>

theorem language_failure_aborts_file:
  assumes "files s (str_path (Path p)) = Some (Inr text)"
    and "split_document text = (warned, frontmatter, body)"
    and "process_lang E (Path p) frontmatter body ''EN''
           (if warned
            then s\<lparr>out := out s @ [Processing_Post (name (Path p))]\<rparr>
                  \<lparr>out := out (s\<lparr>out := out s @ [Processing_Post (name (Path p))]\<rparr>) @
                     [Warning_No_Frontmatter]\<rparr>
            else s\<lparr>out := out s @ [Processing_Post (name (Path p))]\<rparr>) = (Inl e, s')"
  shows "process_file E p s = (Inl e, s') \<and>
    main_loop E (p # rest) s =
      main_loop E rest (s'\<lparr>out := out s' @ [Error_Processing (name (Path p)) e]\<rparr>)"
proof -
  have "process_file E p s = (Inl e, s')"
    using assms by (simp add: process_file_def Let_def)
  then show ?thesis by simp
qed

theorem language_failure_aborts_file_witness:
  "files (start True [''/blog/ko/p.mdx'' \<mapsto> Inr post]) (str_path (Path ''/blog/ko/p.mdx'')) =
     Some (Inr post) \<and>
   split_document post = (False, ''\<newline>title: x\<newline>'', ''\<newline>Body\<newline>'') \<and>
   fst (process_file (stub_env_by_model ''gemma2:9b'' Up) ''/blog/ko/p.mdx''
          (start True [''/blog/ko/p.mdx'' \<mapsto> Inr post])) = Inl (Exception ''unreachable'') \<and>
   out (main_loop (stub_env_by_model ''gemma2:9b'' Up) [''/blog/ko/p.mdx'']
          (start True [''/blog/ko/p.mdx'' \<mapsto> Inr post])) =
     [Processing_Post ''p.mdx'', Starting_Translation ''EN'', Inference ''gemma2:9b'' ''EN'' ''Body'',
      Error_Processing ''p.mdx'' (Exception ''unreachable'')]"
proof -
  let ?E = "stub_env_by_model ''gemma2:9b'' Up"
  let ?p = "''/blog/ko/p.mdx''"
  let ?s = "start True [?p \<mapsto> Inr post]"
  let ?fm = "''\<newline>title: x\<newline>''"
  let ?body = "''\<newline>Body\<newline>''"
  let ?st = "?s\<lparr>out := out ?s @ [Processing_Post (name (Path ?p))]\<rparr>"
  let ?l = "process_lang ?E (Path ?p) ?fm ?body ''EN''
      (if False then ?st\<lparr>out := out ?st @ [Warning_No_Frontmatter]\<rparr> else ?st)"
  have f: "files ?s (str_path (Path ?p)) = Some (Inr post)"
    by (simp add: run_defs start_def)
  have sp: "split_document post = (False, ?fm, ?body)"
    by (simp add: run_defs)
  have l: "?l = (Inl (Exception ''unreachable''), snd ?l)"
    by (simp add: run_defs eval_defs prod_eq_iff)
  note th = language_failure_aborts_file [OF f sp l, of "[]"]
  have o: "out (snd ?l) =
      [Processing_Post ''p.mdx'', Starting_Translation ''EN'',
       Inference ''gemma2:9b'' ''EN'' ''Body'']"
    by (simp add: run_defs eval_defs)
  from th have r1: "fst (process_file ?E ?p ?s) = Inl (Exception ''unreachable'')" by simp
  from th o have r2: "out (main_loop ?E [?p] ?s) =
      [Processing_Post ''p.mdx'', Starting_Translation ''EN'',
       Inference ''gemma2:9b'' ''EN'' ''Body'',
       Error_Processing ''p.mdx'' (Exception ''unreachable'')]"
    by (simp add: name_def Path_def)
  from f sp r1 r2 show ?thesis by blast
qed

text \<open>
  The claim as stated fails: with a backend that is unreachable for the English model only,
  the file is left after the English body call; no Japanese translation is started and no
  output is written, although the Japanese pass alone succeeds.
\<close>

theorem language_isolation_counterexample:
  "process_file (stub_env_by_model ''gemma2:9b'' Up) ''/blog/ko/p.mdx''
       (start True [''/blog/ko/p.mdx'' \<mapsto> Inr post]) =
     (Inl (Exception ''unreachable''),
      \<lparr>world = 1, conn = True,
       out = [Processing_Post ''p.mdx'', Starting_Translation ''EN'',
              Inference ''gemma2:9b'' ''EN'' ''Body''],
       files = [''/blog/ko/p.mdx'' \<mapsto> Inr post]\<rparr>) \<and>
   fst (process_lang (stub_env_by_model ''gemma2:9b'' Up) (Path ''/blog/ko/p.mdx'')
          ''\<newline>title: x\<newline>'' ''\<newline>Body\<newline>'' ''JP''
          (start True [''/blog/ko/p.mdx'' \<mapsto> Inr post])) = Inr ()"
  by (simp add: run_defs eval_defs)

section \<open>The metrics sink\<close>

text \<open>
  Claim C8. The claim holds for a connection that cannot be made: \<open>log_inference\<close> returns,
  and the next call tries to connect again. It fails for an insert that raises on a
  connection that was dropped: the handler prints the error and calls \<open>rollback\<close> outside the
  \<open>try\<close>, the rollback raises, and the exception leaves \<open>log_inference\<close>, \<open>_call_llm\<close> and
  \<open>process_file\<close> before the output of a translation that succeeded is written.
\<close>

theorem dropped_connection_raises:
  "log_inference (stub_env reply Dropped) ''gemma2:9b'' ''KO'' ''EN'' ''Body'' ''Body'' 1000 5
       (95 / 100) (start True Map.empty) =
     (Inl (Exception ''connection already closed''),
      \<lparr>world = 0, conn = True, out = [Monitor_Error_Insert (Exception ''insert failed'')],
       files = Map.empty\<rparr>) \<and>
   process_file (stub_env reply Dropped) ''/blog/ko/p.mdx''
       (start True [''/blog/ko/p.mdx'' \<mapsto> Inr post]) =
     (Inl (Exception ''connection already closed''),
      \<lparr>world = 1, conn = True,
       out = [Processing_Post ''p.mdx'', Starting_Translation ''EN'',
              Inference ''gemma2:9b'' ''EN'' ''Body'',
              Monitor_Error_Insert (Exception ''insert failed'')],
       files = [''/blog/ko/p.mdx'' \<mapsto> Inr post]\<rparr>)"
  by (simp add: run_defs eval_defs)

lemma log_inference_connection_refused:
  assumes "\<not> conn s" and "psycopg2_connect E (world s) = (Some e, w)"
  shows "log_inference E model src tgt input output latency tps score s =
    (Inr (), s\<lparr>world := w, out := out s @ [Monitor_Error_Connection e]\<rparr>)"
  using assms by (simp add: log_inference_def connect_def Let_def)

lemma log_inference_reconnects:
  assumes "\<not> conn s" and "psycopg2_connect E (world s) = (None, w)"
    and "execute_commit E
           \<lparr>row_model_name = model, row_source_lang = src, row_target_lang = tgt,
            row_input_length = py_len input, row_output_length = py_len output,
            row_latency_ms = latency, row_tokens_per_sec = tps, row_similarity_score = score,
            row_input_text = input, row_output_text = output\<rparr> w = (None, w')"
  shows "log_inference E model src tgt input output latency tps score s =
    (Inr (), s\<lparr>world := w', conn := True, out := out s @ [DB_Log_Saved model latency tps]\<rparr>)"
  using assms by (simp add: log_inference_def connect_def Let_def)

lemma refused_connection_still_writes:
  "files (snd (process_file (stub_env reply Refusing) ''/blog/ko/p.mdx''
                 (start False [''/blog/ko/p.mdx'' \<mapsto> Inr post]))) ''/blog/jp/p.mdx'' =
     Some (Inr ''---\<newline>title: x\<newline>---\<newline>\<newline>Body\<newline>'')"
  by (simp add: run_defs eval_defs)

end
